theory Spec2Isabelle
  imports Complex_Main
begin

section \<open>Python values, exceptions and dictionaries\<close>

text \<open>
  The development embeds \<^verbatim>\<open>src/apis/api_manager.py\<close> together with the two
  client methods it calls (\<^verbatim>\<open>GeminiClient.generate_text\<close>,
  \<^verbatim>\<open>PerplexityClient.search_and_answer\<close>, \<^verbatim>\<open>PerplexityClient.fact_check\<close>).

  A Python exception is its class name, its message (\<^verbatim>\<open>str(e)\<close>) and whether its
  class derives from \<^verbatim>\<open>Exception\<close>: an \<^verbatim>\<open>except Exception\<close> clause and an
  \<^verbatim>\<open>isinstance(x, Exception)\<close> test see only those, and not the other subclasses of
  \<^verbatim>\<open>BaseException\<close> such as \<^verbatim>\<open>asyncio.CancelledError\<close>.  The code raises only the
  built-in \<^verbatim>\<open>ValueError\<close>, \<^verbatim>\<open>KeyError\<close>, \<^verbatim>\<open>IndexError\<close> and \<^verbatim>\<open>TypeError\<close> itself;
  every other exception comes from an upstream library or from the event loop.
  Logger calls have no effect on any result and are left out.
\<close>

datatype exn = PyExc (exn_class: string) (exn_msg: string) (is_Exception: bool)

text \<open>\<open>Exn\<close>: an exception whose class derives from \<^verbatim>\<open>Exception\<close>; \<open>BaseExn\<close>: one whose
  class does not.\<close>

abbreviation Exn :: "string \<Rightarrow> string \<Rightarrow> exn" where
  "Exn cls msg \<equiv> PyExc cls msg True"

abbreviation BaseExn :: "string \<Rightarrow> string \<Rightarrow> exn" where
  "BaseExn cls msg \<equiv> PyExc cls msg False"

abbreviation ValueError :: "string \<Rightarrow> exn" where
  "ValueError msg \<equiv> Exn ''ValueError'' msg"

abbreviation KeyError :: "string \<Rightarrow> exn" where
  "KeyError msg \<equiv> Exn ''KeyError'' msg"

abbreviation IndexError :: "string \<Rightarrow> exn" where
  "IndexError msg \<equiv> Exn ''IndexError'' msg"

abbreviation TypeError :: "string \<Rightarrow> exn" where
  "TypeError msg \<equiv> Exn ''TypeError'' msg"

abbreviation CancelledError :: "string \<Rightarrow> exn" where
  "CancelledError msg \<equiv> BaseExn ''CancelledError'' msg"

text \<open>An outcome that is a response or an exception deriving from \<^verbatim>\<open>Exception\<close>.\<close>

definition ordinary :: "exn + 'a \<Rightarrow> bool" where
  "ordinary r = (case r of Inl e \<Rightarrow> is_Exception e | Inr _ \<Rightarrow> True)"

text \<open>An outcome that is an exception deriving from \<^verbatim>\<open>Exception\<close>: a failure that an
  \<^verbatim>\<open>except Exception\<close> clause catches.\<close>

definition fails :: "exn + 'a \<Rightarrow> bool" where
  "fails r = (case r of Inl e \<Rightarrow> is_Exception e | Inr _ \<Rightarrow> False)"

text \<open>\<open>raises_class r c\<close>: the outcome \<open>r\<close> is an exception of class \<open>c\<close>.\<close>

definition raises_class :: "exn + 'a \<Rightarrow> string \<Rightarrow> bool" where
  "raises_class r c = (case r of Inl e \<Rightarrow> exn_class e = c | Inr _ \<Rightarrow> False)"

text \<open>The dynamically typed values that travel in keyword options, request payloads
  and response metadata.\<close>

datatype pyval =
    PNone
  | PBool bool
  | PInt int
  | PFloat real
  | PStr string
  | PStrList "string list"
  | PDicts "(string \<times> string) list list"

text \<open>
  \<^verbatim>\<open>**kwargs\<close>: the keyword options of a call, a dictionary from names to values.
  \<^verbatim>\<open>route_request\<close> and \<^verbatim>\<open>hybrid_request\<close> pass it on to every call they make, and
  Python binds it at each call: a key that names a parameter the call has already
  bound by position makes the call raise \<^verbatim>\<open>TypeError\<close>, a key that names another
  parameter of the callee is bound to it, and the remaining keys go into the
  \<^verbatim>\<open>**kwargs\<close> of the callee, or make the call raise \<^verbatim>\<open>TypeError\<close> when it has none.
\<close>

type_synonym kwargs = "(string \<times> pyval) list"

definition quoted :: "string \<Rightarrow> string" where
  "quoted s = [CHR 0x27] @ s @ [CHR 0x27]"

text \<open>The two \<^verbatim>\<open>TypeError\<close>s of argument binding, for the callee \<open>f\<close> and the keyword
  \<open>k\<close> (messages of CPython 3.10 and later).\<close>

definition multiple_values :: "string \<Rightarrow> string \<Rightarrow> exn" where
  "multiple_values f k = TypeError (f @ ''() got multiple values for argument '' @ quoted k)"

definition unexpected_keyword :: "string \<Rightarrow> string \<Rightarrow> exn" where
  "unexpected_keyword f k =
     TypeError (f @ ''() got an unexpected keyword argument '' @ quoted k)"

text \<open>
  \<open>bind_error f positional accepted kw\<close>: the exception, if any, of calling \<open>f\<close> with
  the keyword options \<open>kw\<close>, when the call binds the parameters \<open>positional\<close> by
  position.  \<open>accepted\<close> is \<open>None\<close> when \<open>f\<close> has a \<^verbatim>\<open>**kwargs\<close> parameter, and otherwise
  the names of its remaining parameters.  The first offending keyword, in the order
  of the dictionary, decides.
\<close>

definition bind_error ::
  "string \<Rightarrow> string list \<Rightarrow> string list option \<Rightarrow> kwargs \<Rightarrow> exn option" where
  "bind_error f positional accepted kw =
     (case find (\<lambda>(k, v). k \<in> set positional
                   \<or> (case accepted of None \<Rightarrow> False | Some names \<Rightarrow> k \<notin> set names)) kw of
        None \<Rightarrow> None
      | Some (k, v) \<Rightarrow>
          Some (if k \<in> set positional then multiple_values f k
                else unexpected_keyword f k))"

text \<open>The value that a keyword option gives to a parameter annotated
  \<^verbatim>\<open>Optional[str]\<close>, \<^verbatim>\<open>bool\<close> (with its default) or \<^verbatim>\<open>Optional[List[str]]\<close>; an absent
  key leaves the default.  The three functions read values of the annotated type
  (see \<open>param_typed\<close> below).\<close>

definition kw_str :: "kwargs \<Rightarrow> string \<Rightarrow> string option" where
  "kw_str kw k = (case map_of kw k of Some (PStr s) \<Rightarrow> Some s | _ \<Rightarrow> None)"

definition kw_bool :: "kwargs \<Rightarrow> string \<Rightarrow> bool \<Rightarrow> bool" where
  "kw_bool kw k dflt = (case map_of kw k of Some (PBool b) \<Rightarrow> b | _ \<Rightarrow> dflt)"

definition kw_strs :: "kwargs \<Rightarrow> string \<Rightarrow> string list option" where
  "kw_strs kw k = (case map_of kw k of Some (PStrList xs) \<Rightarrow> Some xs | _ \<Rightarrow> None)"

text \<open>The keyword options left for \<^verbatim>\<open>**kwargs\<close> once the parameters \<open>names\<close> are bound.\<close>

definition kw_rest :: "kwargs \<Rightarrow> string list \<Rightarrow> kwargs" where
  "kw_rest kw names = filter (\<lambda>(k, v). k \<notin> set names) kw"

fun str_or_None :: "pyval \<Rightarrow> bool" where
  "str_or_None PNone = True"
| "str_or_None (PStr s) = True"
| "str_or_None v = False"

fun is_bool :: "pyval \<Rightarrow> bool" where
  "is_bool (PBool b) = True"
| "is_bool v = False"

fun strs_or_None :: "pyval \<Rightarrow> bool" where
  "strs_or_None PNone = True"
| "strs_or_None (PStrList xs) = True"
| "strs_or_None v = False"

text \<open>A keyword option that a client method binds to one of its parameters has a
  value of the type the parameter is annotated with.\<close>

definition param_typed :: "string \<Rightarrow> pyval \<Rightarrow> bool" where
  "param_typed k v =
     (if k \<in> set [''system_instruction'', ''system_message'', ''context''] then str_or_None v
      else if k \<in> set [''return_citations'', ''return_images''] then is_bool v
      else if k = ''search_domain_filter'' then strs_or_None v
      else True)"

text \<open>
  The keyword options that a call of \<^verbatim>\<open>route_request\<close> can have received: a dictionary
  (distinct keys), none of them a parameter of \<^verbatim>\<open>route_request\<close> itself (Python binds
  or refuses those before the body runs), and values of the annotated types for the
  parameters of the client methods.  For \<^verbatim>\<open>hybrid_request\<close>, the same and no key that
  is one of its two flags; the key \<^verbatim>\<open>request_type\<close>, which \<^verbatim>\<open>hybrid_request\<close> can
  receive and its calls of \<^verbatim>\<open>route_request\<close> refuse, is handled in \<open>hybrid_request\<close>
  below and is not among these.
\<close>

definition route_kwargs :: "kwargs \<Rightarrow> bool" where
  "route_kwargs kw =
     (distinct (map fst kw)
      \<and> list_all (\<lambda>(k, v). k \<notin> set [''self'', ''request_type'', ''prompt'']
                              \<and> param_typed k v) kw)"

definition hybrid_kwargs :: "kwargs \<Rightarrow> bool" where
  "hybrid_kwargs kw =
     (route_kwargs kw
      \<and> list_all (\<lambda>(k, v). k \<notin> set [''use_search'', ''use_reasoning'']) kw)"

text \<open>An insertion-ordered Python \<^verbatim>\<open>dict\<close> is an association list with distinct keys;
  \<open>d[k] = v\<close> overwrites in place or appends.\<close>

fun dict_set :: "('k \<times> 'v) list \<Rightarrow> 'k \<Rightarrow> 'v \<Rightarrow> ('k \<times> 'v) list" where
  "dict_set [] k v = [(k, v)]"
| "dict_set ((k', v') # kvs) k v =
     (if k' = k then (k', v) # kvs else (k', v') # dict_set kvs k v)"

fun dict_update :: "('k \<times> 'v) list \<Rightarrow> ('k \<times> 'v) list \<Rightarrow> ('k \<times> 'v) list" where
  "dict_update d [] = d"
| "dict_update d ((k, v) # kvs) = dict_update (dict_set d k v) kvs"

text \<open>\<^verbatim>\<open>d.get(k, default)\<close> on a dictionary that is only read by key (the token usage,
  the routing table).\<close>

definition dict_get :: "('k \<rightharpoonup> 'v) \<Rightarrow> 'k \<Rightarrow> 'v \<Rightarrow> 'v" where
  "dict_get d k dflt = (case d k of None \<Rightarrow> dflt | Some v \<Rightarrow> v)"

definition nl :: string where
  "nl = [CHR 0x0A]"

text \<open>\<^verbatim>\<open>sep.join(parts)\<close>.\<close>

fun join :: "string \<Rightarrow> string list \<Rightarrow> string" where
  "join sep [] = []"
| "join sep [x] = x"
| "join sep (x # y # ys) = x @ sep @ join sep (y # ys)"

section \<open>Data model\<close>

datatype APIType = REASONING | SEARCH | GENERATION | ANALYSIS | FACT_CHECK

text \<open>\<^verbatim>\<open>str(request_type)\<close> of a plain \<^verbatim>\<open>Enum\<close> member.\<close>

fun str_APIType :: "APIType \<Rightarrow> string" where
  "str_APIType REASONING = ''APIType.REASONING''"
| "str_APIType SEARCH = ''APIType.SEARCH''"
| "str_APIType GENERATION = ''APIType.GENERATION''"
| "str_APIType ANALYSIS = ''APIType.ANALYSIS''"
| "str_APIType FACT_CHECK = ''APIType.FACT_CHECK''"

type_synonym usage_dict = "string \<rightharpoonup> int"

type_synonym citation = "(string \<times> string) list"

record APIResponse =
  content :: string
  source :: string
  usage :: usage_dict
  metadata :: "(string \<times> pyval) list"
  citations :: "citation list option"

record GeminiResponse =
  gr_content :: string
  gr_usage :: usage_dict
  gr_model :: string
  gr_finish_reason :: string
  gr_safety_ratings :: "(string \<times> string) list list option"

record PerplexityResponse =
  pr_content :: string
  pr_citations :: "citation list"
  pr_usage :: usage_dict
  pr_model :: string
  pr_finish_reason :: string

text \<open>The entries of the routing table are the client objects; \<open>OtherClient\<close> stands for
  an object of any other class, carrying the text of \<^verbatim>\<open>type(api_client)\<close>.\<close>

datatype api_client = GeminiClient | PerplexityClient | OtherClient string

section \<open>The upstream services\<close>

text \<open>What \<^verbatim>\<open>model.generate_content\<close> returns: the \<^verbatim>\<open>text\<close> property (\<open>reply_text\<close>;
  the library may refuse it with an exception), the optional usage metadata and the
  candidates, each with the name of its finish reason and its safety ratings as
  (category name, probability name) pairs.\<close>

record usage_metadata_t =
  prompt_token_count :: int
  candidates_token_count :: int
  total_token_count :: int

record candidate =
  finish_reason_name :: string
  safety_ratings :: "(string \<times> string) list"

record gemini_reply =
  reply_text :: "exn + string"
  usage_metadata :: "usage_metadata_t option"
  candidates :: "candidate list"

text \<open>The JSON body of a chat-completions reply.  An absent key is \<open>None\<close>; in a choice,
  the outer option of \<open>message\<close> is the key \<^verbatim>\<open>"message"\<close>, the inner one its key
  \<^verbatim>\<open>"content"\<close>.\<close>

record pchoice =
  message :: "string option option"
  finish_reason :: "string option"

record perplexity_data =
  data_choices :: "pchoice list option"
  data_citations :: "citation list option"
  data_usage :: "usage_dict option"

type_synonym payload = "(string \<times> pyval) list"

text \<open>One entry of the trace of network calls.\<close>

datatype call =
    GenerateContent string kwargs
  | PostChatCompletions payload

text \<open>
  The environment of an \<^verbatim>\<open>APIManager\<close>: the settings its clients read and the two
  upstream services.  \<open>generate_content\<close> is the Gemini model call,
  \<open>post_chat_completions\<close> is \<^verbatim>\<open>client.post\<close>, \<^verbatim>\<open>raise_for_status\<close> and
  \<^verbatim>\<open>response.json()\<close> taken together (\<open>Inl\<close>: one of them raised).  \<open>loop_time\<close>
  is the reading of the event loop's clock.
\<close>

record env =
  gemini_model :: string
  perplexity_model :: string
  perplexity_temperature :: real
  perplexity_max_tokens :: int
  generate_content :: "string \<Rightarrow> kwargs \<Rightarrow> exn + gemini_reply"
  post_chat_completions :: "payload \<Rightarrow> exn + perplexity_data"
  loop_time :: real

type_synonym 'a traced = "(exn + 'a) \<times> call list"

section \<open>The provider clients\<close>

text \<open>The \<^verbatim>\<open>usage\<close> dictionary that \<^verbatim>\<open>generate_text\<close> builds: each key reads its count
  from the usage metadata when there is one and is 0 otherwise.\<close>

definition gemini_usage :: "usage_metadata_t option \<Rightarrow> usage_dict" where
  "gemini_usage um =
     [''prompt_tokens'' \<mapsto> (case um of Some m \<Rightarrow> prompt_token_count m | None \<Rightarrow> 0),
      ''completion_tokens'' \<mapsto> (case um of Some m \<Rightarrow> candidates_token_count m | None \<Rightarrow> 0),
      ''total_tokens'' \<mapsto> (case um of Some m \<Rightarrow> total_token_count m | None \<Rightarrow> 0)]"

text \<open>The prompt that \<^verbatim>\<open>generate_text\<close> sends: prefixed by the system instruction
  when there is a non-empty one.\<close>

definition gemini_full_prompt :: "string \<Rightarrow> string option \<Rightarrow> string" where
  "gemini_full_prompt prompt system_instruction =
     (case system_instruction of
        None \<Rightarrow> prompt
      | Some s \<Rightarrow>
          if s \<noteq> [] then ''System: '' @ s @ nl @ nl @ ''User: '' @ prompt
          else prompt)"

text \<open>\<^verbatim>\<open>GeminiClient.generate_text(prompt, system_instruction=None, **kwargs)\<close>.  The
  \<^verbatim>\<open>except\<close> clause logs and re-raises, so an exception passes through unchanged.\<close>

definition generate_text ::
  "env \<Rightarrow> string \<Rightarrow> string option \<Rightarrow> kwargs \<Rightarrow> GeminiResponse traced" where
  "generate_text env prompt system_instruction kw =
     (let full_prompt = gemini_full_prompt prompt system_instruction
      in ((case generate_content env full_prompt kw of
             Inl e \<Rightarrow> Inl e
           | Inr response \<Rightarrow>
               (case reply_text response of
                  Inl e \<Rightarrow> Inl e
                | Inr t \<Rightarrow>
                    Inr \<lparr>gr_content = (if t \<noteq> [] then t else []),
                         gr_usage = gemini_usage (usage_metadata response),
                         gr_model = gemini_model env,
                         gr_finish_reason =
                           (case candidates response of
                              [] \<Rightarrow> ''UNKNOWN''
                            | c # _ \<Rightarrow> finish_reason_name c),
                         gr_safety_ratings =
                           (case candidates response of
                              [] \<Rightarrow> None
                            | c # _ \<Rightarrow>
                                if safety_ratings c \<noteq> [] then
                                  Some (map (\<lambda>(cat, prob).
                                               [(''category'', cat), (''probability'', prob)])
                                            (safety_ratings c))
                                else None)\<rparr>)),
          [GenerateContent full_prompt kw]))"

text \<open>The request payload of \<^verbatim>\<open>search_and_answer\<close>: the dictionary display of the
  source, with the extra options overriding or extending it, and the domain filter
  when there is a non-empty one.\<close>

definition search_payload ::
  "env \<Rightarrow> string \<Rightarrow> string option \<Rightarrow> bool \<Rightarrow> bool \<Rightarrow> string list option \<Rightarrow> kwargs
     \<Rightarrow> payload" where
  "search_payload env query system_message return_citations return_images
       search_domain_filter kw =
     (let messages =
            (case system_message of
               None \<Rightarrow> []
             | Some s \<Rightarrow>
                 if s \<noteq> [] then [[(''role'', ''system''), (''content'', s)]] else [])
            @ [[(''role'', ''user''), (''content'', query)]];
          payload =
            dict_update
              [(''model'', PStr (perplexity_model env)),
               (''messages'', PDicts messages),
               (''temperature'', PFloat (perplexity_temperature env)),
               (''max_tokens'', PInt (perplexity_max_tokens env)),
               (''return_citations'', PBool return_citations),
               (''return_images'', PBool return_images)]
              kw
      in (case search_domain_filter of
            None \<Rightarrow> payload
          | Some f \<Rightarrow>
              if f \<noteq> [] then dict_set payload ''search_domain_filter'' (PStrList f)
              else payload))"

text \<open>\<^verbatim>\<open>PerplexityClient.search_and_answer(query, system_message=None,
  return_citations=True, return_images=False, search_domain_filter=None, **kwargs)\<close>.
  The usage is \<^verbatim>\<open>data.get("usage", {})\<close>: whatever the upstream sent, and the empty
  dictionary when it sent none.\<close>

definition search_and_answer ::
  "env \<Rightarrow> string \<Rightarrow> string option \<Rightarrow> bool \<Rightarrow> bool \<Rightarrow> string list option \<Rightarrow> kwargs
     \<Rightarrow> PerplexityResponse traced" where
  "search_and_answer env query system_message return_citations return_images
       search_domain_filter kw =
     (let payload = search_payload env query system_message return_citations return_images
                      search_domain_filter kw
      in ((case post_chat_completions env payload of
             Inl e \<Rightarrow> Inl e
           | Inr data \<Rightarrow>
               (case data_choices data of
                  None \<Rightarrow> Inl (KeyError (quoted ''choices''))
                | Some [] \<Rightarrow> Inl (IndexError ''list index out of range'')
                | Some (choice # _) \<Rightarrow>
                    (case message choice of
                       None \<Rightarrow> Inl (KeyError (quoted ''message''))
                     | Some None \<Rightarrow> Inl (KeyError (quoted ''content''))
                     | Some (Some c) \<Rightarrow>
                         (case finish_reason choice of
                            None \<Rightarrow> Inl (KeyError (quoted ''finish_reason''))
                          | Some fr \<Rightarrow>
                              Inr \<lparr>pr_content = c,
                                   pr_citations =
                                     (case data_citations data of
                                        Some cs \<Rightarrow> if return_citations then cs else []
                                      | None \<Rightarrow> []),
                                   pr_usage =
                                     (case data_usage data of
                                        Some u \<Rightarrow> u
                                      | None \<Rightarrow> Map.empty),
                                   pr_model = perplexity_model env,
                                   pr_finish_reason = fr\<rparr>)))),
          [PostChatCompletions payload]))"

text \<open>The dictionary that \<^verbatim>\<open>fact_check\<close> returns.\<close>

record fact_check_result =
  fc_statement :: string
  fc_verification :: string
  fc_citations :: "citation list"
  fc_usage :: usage_dict
  fc_timestamp :: real

definition fact_check_system_message :: string where
  "fact_check_system_message =
     ''You are a fact-checker. Analyze the statement and provide:'' @ nl @
     ''1. Verification status (True/False/Partially True/Unverifiable)'' @ nl @
     ''2. Supporting evidence with citations'' @ nl @
     ''3. Contradicting evidence if any'' @ nl @
     ''4. Confidence level'' @ nl @
     ''5. Additional context or nuances''"

text \<open>The query that \<^verbatim>\<open>fact_check\<close> builds from the statement and the context.\<close>

definition fact_check_query :: "string \<Rightarrow> string option \<Rightarrow> string" where
  "fact_check_query statement context =
     (let query = ''Fact-check this statement: '' @ statement
      in (case context of
            None \<Rightarrow> query
          | Some c \<Rightarrow> if c \<noteq> [] then query @ nl @ nl @ ''Context: '' @ c else query))"

text \<open>\<^verbatim>\<open>PerplexityClient.fact_check(statement, context=None)\<close>.\<close>

definition fact_check :: "env \<Rightarrow> string \<Rightarrow> string option \<Rightarrow> fact_check_result traced" where
  "fact_check env statement context =
     (case search_and_answer env (fact_check_query statement context)
             (Some fact_check_system_message) True False None [] of
        (Inl e, tr) \<Rightarrow> (Inl e, tr)
      | (Inr response, tr) \<Rightarrow>
          (Inr \<lparr>fc_statement = statement,
                fc_verification = pr_content response,
                fc_citations = pr_citations response,
                fc_usage = pr_usage response,
                fc_timestamp = loop_time env\<rparr>, tr))"

section \<open>The API manager\<close>

text \<open>The routing table built by \<^verbatim>\<open>APIManager.__init__\<close>.  The operations below take
  the table as a parameter (\<^verbatim>\<open>self.api_routing\<close>), so that statements about absent
  entries and about other candidate lists can be made.\<close>

type_synonym routing = "APIType \<rightharpoonup> api_client list"

definition api_routing :: routing where
  "api_routing =
     [REASONING \<mapsto> [GeminiClient],
      SEARCH \<mapsto> [PerplexityClient],
      GENERATION \<mapsto> [GeminiClient],
      ANALYSIS \<mapsto> [GeminiClient, PerplexityClient],
      FACT_CHECK \<mapsto> [PerplexityClient]]"

definition gemini_request_types :: "APIType list" where
  "gemini_request_types = [REASONING, GENERATION, ANALYSIS]"

definition perplexity_request_types :: "APIType list" where
  "perplexity_request_types = [SEARCH, ANALYSIS, FACT_CHECK]"

text \<open>\<^verbatim>\<open>APIManager._execute_gemini_request\<close>.  The call
  \<^verbatim>\<open>generate_text(prompt, **kwargs)\<close> binds the key \<^verbatim>\<open>system_instruction\<close> to the
  parameter of that name; the other keys go on to \<^verbatim>\<open>generate_content\<close>.\<close>

definition execute_gemini_request ::
  "env \<Rightarrow> APIType \<Rightarrow> string \<Rightarrow> kwargs \<Rightarrow> APIResponse traced" where
  "execute_gemini_request env request_type prompt kw =
     (if request_type \<in> set gemini_request_types then
        (case bind_error ''GeminiClient.generate_text'' [''self'', ''prompt''] None kw of
           Some e \<Rightarrow> (Inl e, [])
         | None \<Rightarrow>
             (case generate_text env prompt (kw_str kw ''system_instruction'')
                     (kw_rest kw [''system_instruction'']) of
                (Inl e, tr) \<Rightarrow> (Inl e, tr)
              | (Inr response, tr) \<Rightarrow>
                  (Inr \<lparr>content = gr_content response,
                        source = ''gemini'',
                        usage = gr_usage response,
                        metadata =
                          [(''model'', PStr (gr_model response)),
                           (''finish_reason'', PStr (gr_finish_reason response)),
                           (''safety_ratings'',
                              (case gr_safety_ratings response of
                                 None \<Rightarrow> PNone
                               | Some rs \<Rightarrow> PDicts rs))],
                        citations = None\<rparr>, tr)))
      else
        (Inl (ValueError (''Gemini API does not support request type: ''
                @ str_APIType request_type)), []))"

text \<open>The parameters of \<^verbatim>\<open>search_and_answer\<close> that a keyword option can bind.\<close>

definition search_and_answer_params :: "string list" where
  "search_and_answer_params =
     [''system_message'', ''return_citations'', ''return_images'', ''search_domain_filter'']"

text \<open>\<^verbatim>\<open>APIManager._execute_perplexity_request\<close>.  The call
  \<^verbatim>\<open>fact_check(prompt, **kwargs)\<close> binds the key \<^verbatim>\<open>context\<close> and refuses every other
  key, \<^verbatim>\<open>fact_check\<close> having no \<^verbatim>\<open>**kwargs\<close>; the call
  \<^verbatim>\<open>search_and_answer(prompt, **kwargs)\<close> binds the four named parameters and puts the
  other keys into the payload.\<close>

definition execute_perplexity_request ::
  "env \<Rightarrow> APIType \<Rightarrow> string \<Rightarrow> kwargs \<Rightarrow> APIResponse traced" where
  "execute_perplexity_request env request_type prompt kw =
     (if request_type \<in> set perplexity_request_types then
        (if request_type = FACT_CHECK then
           (case bind_error ''PerplexityClient.fact_check'' [''self'', ''statement'']
                   (Some [''context'']) kw of
              Some e \<Rightarrow> (Inl e, [])
            | None \<Rightarrow>
                (case fact_check env prompt (kw_str kw ''context'') of
                   (Inl e, tr) \<Rightarrow> (Inl e, tr)
                 | (Inr result, tr) \<Rightarrow>
                     (Inr \<lparr>content = fc_verification result,
                           source = ''perplexity'',
                           usage = fc_usage result,
                           metadata = [(''timestamp'', PFloat (fc_timestamp result))],
                           citations = Some (fc_citations result)\<rparr>, tr)))
         else
           (case bind_error ''PerplexityClient.search_and_answer'' [''self'', ''query'']
                   None kw of
              Some e \<Rightarrow> (Inl e, [])
            | None \<Rightarrow>
                (case search_and_answer env prompt
                        (kw_str kw ''system_message'')
                        (kw_bool kw ''return_citations'' True)
                        (kw_bool kw ''return_images'' False)
                        (kw_strs kw ''search_domain_filter'')
                        (kw_rest kw search_and_answer_params) of
                   (Inl e, tr) \<Rightarrow> (Inl e, tr)
                 | (Inr response, tr) \<Rightarrow>
                     (Inr \<lparr>content = pr_content response,
                           source = ''perplexity'',
                           usage = pr_usage response,
                           metadata =
                             [(''model'', PStr (pr_model response)),
                              (''finish_reason'', PStr (pr_finish_reason response))],
                           citations = Some (pr_citations response)\<rparr>, tr))))
      else
        (Inl (ValueError (''Perplexity API does not support request type: ''
                @ str_APIType request_type)), []))"

text \<open>The payload of the request that \<open>execute_perplexity_request\<close> sends for a category
  it serves, and the prompt that \<open>execute_gemini_request\<close> sends.\<close>

definition perplexity_request_payload :: "env \<Rightarrow> APIType \<Rightarrow> string \<Rightarrow> kwargs \<Rightarrow> payload" where
  "perplexity_request_payload env request_type prompt kw =
     (if request_type = FACT_CHECK then
        search_payload env (fact_check_query prompt (kw_str kw ''context''))
          (Some fact_check_system_message) True False None []
      else
        search_payload env prompt
          (kw_str kw ''system_message'')
          (kw_bool kw ''return_citations'' True)
          (kw_bool kw ''return_images'' False)
          (kw_strs kw ''search_domain_filter'')
          (kw_rest kw search_and_answer_params))"

definition gemini_request_prompt :: "string \<Rightarrow> kwargs \<Rightarrow> string" where
  "gemini_request_prompt prompt kw =
     gemini_full_prompt prompt (kw_str kw ''system_instruction'')"

text \<open>\<^verbatim>\<open>APIManager._execute_request\<close>: dispatch on the class of the client.\<close>

fun execute_request ::
  "env \<Rightarrow> api_client \<Rightarrow> APIType \<Rightarrow> string \<Rightarrow> kwargs \<Rightarrow> APIResponse traced" where
  "execute_request env GeminiClient request_type prompt kw =
     execute_gemini_request env request_type prompt kw"
| "execute_request env PerplexityClient request_type prompt kw =
     execute_perplexity_request env request_type prompt kw"
| "execute_request env (OtherClient cls) request_type prompt kw =
     (Inl (ValueError (''Unknown API client type: '' @ cls)), [])"

text \<open>The call \<^verbatim>\<open>self._execute_request(api, request_type, prompt, **kwargs)\<close> made by
  \<^verbatim>\<open>route_request\<close>: Python refuses it when a keyword option names one of the
  parameters bound by position, \<^verbatim>\<open>api_client\<close> among them.\<close>

definition call_execute_request ::
  "env \<Rightarrow> api_client \<Rightarrow> APIType \<Rightarrow> string \<Rightarrow> kwargs \<Rightarrow> APIResponse traced" where
  "call_execute_request env api request_type prompt kw =
     (case bind_error ''APIManager._execute_request''
             [''self'', ''api_client'', ''request_type'', ''prompt''] None kw of
        Some e \<Rightarrow> (Inl e, [])
      | None \<Rightarrow> execute_request env api request_type prompt kw)"

text \<open>
  The loop over \<^verbatim>\<open>available_apis[1:]\<close> of \<^verbatim>\<open>route_request\<close>.  The first fallback that
  returns ends it with that response.  A fallback that raises is skipped when
  \<^verbatim>\<open>except Exception\<close> catches its exception; any other exception leaves the loop, and
  \<^verbatim>\<open>route_request\<close> with it.  \<open>None\<close>: the list is exhausted.
\<close>

fun try_fallbacks ::
  "env \<Rightarrow> api_client list \<Rightarrow> APIType \<Rightarrow> string \<Rightarrow> kwargs
     \<Rightarrow> (exn + APIResponse) option \<times> call list" where
  "try_fallbacks env [] request_type prompt kw = (None, [])"
| "try_fallbacks env (fallback_api # rest) request_type prompt kw =
     (case call_execute_request env fallback_api request_type prompt kw of
        (Inr r, tr) \<Rightarrow> (Some (Inr r), tr)
      | (Inl fallback_error, tr) \<Rightarrow>
          if is_Exception fallback_error then
            (case try_fallbacks env rest request_type prompt kw of
               (res, tr') \<Rightarrow> (res, tr @ tr'))
          else (Some (Inl fallback_error), tr))"

text \<open>\<^verbatim>\<open>APIManager.route_request\<close>.  An exception of the primary that
  \<^verbatim>\<open>except Exception\<close> does not catch leaves \<^verbatim>\<open>route_request\<close> at once.  The outer
  \<^verbatim>\<open>except\<close> clause logs and re-raises.\<close>

definition route_request ::
  "env \<Rightarrow> routing \<Rightarrow> APIType \<Rightarrow> string \<Rightarrow> kwargs \<Rightarrow> APIResponse traced" where
  "route_request env table request_type prompt kw =
     (case dict_get table request_type [] of
        [] \<Rightarrow>
          (Inl (ValueError (''No APIs available for request type: ''
                  @ str_APIType request_type)), [])
      | primary_api # fallbacks \<Rightarrow>
          (case call_execute_request env primary_api request_type prompt kw of
             (Inr r, tr) \<Rightarrow> (Inr r, tr)
           | (Inl e, tr) \<Rightarrow>
               if is_Exception e then
                 (case try_fallbacks env fallbacks request_type prompt kw of
                    (Some res, tr') \<Rightarrow> (res, tr @ tr')
                  | (None, tr') \<Rightarrow> (Inl e, tr @ tr'))
               else (Inl e, tr)))"

text \<open>The task list of \<^verbatim>\<open>hybrid_request\<close>: one \<^verbatim>\<open>route_request\<close> per requested category.\<close>

definition hybrid_tasks :: "bool \<Rightarrow> bool \<Rightarrow> APIType list" where
  "hybrid_tasks use_search use_reasoning =
     (if use_search then [SEARCH] else []) @ (if use_reasoning then [REASONING] else [])"

text \<open>\<^verbatim>\<open>asyncio.gather(*tasks, return_exceptions=True)\<close>: the outcome of every task, in the
  order of the tasks, an exception being an outcome like any other.  The calls of the
  tasks are listed task by task; how the event loop interleaves them is not modelled
  (each upstream answers a request the same way whatever the other is doing).  For a
  task that ends with an exception outside \<^verbatim>\<open>Exception\<close>, the outcome is the exception
  that the task holds (for a cancelled task, the \<^verbatim>\<open>CancelledError\<close> that asyncio reports
  for it); the statements below are about tasks that return or raise an
  \<^verbatim>\<open>Exception\<close>.\<close>

definition gather :: "'a traced list \<Rightarrow> (exn + 'a) list \<times> call list" where
  "gather tasks = (map fst tasks, concat (map snd tasks))"

text \<open>
  \<^verbatim>\<open>APIManager.hybrid_request\<close>.  The call
  \<^verbatim>\<open>self.route_request(APIType.SEARCH, prompt, **kwargs)\<close> that creates a task raises
  \<^verbatim>\<open>TypeError\<close> when a keyword option names a parameter it binds by position
  (\<^verbatim>\<open>request_type\<close>); that happens inside the \<^verbatim>\<open>try\<close>, whose \<^verbatim>\<open>except\<close> clause logs and
  re-raises, before any task runs.  An outcome is left out of the results when
  \<^verbatim>\<open>isinstance(outcome, Exception)\<close> holds and stored under its label otherwise, be it
  a response or an exception of another class: the values of the dictionary are
  outcomes.
\<close>

definition hybrid_request ::
  "env \<Rightarrow> routing \<Rightarrow> string \<Rightarrow> bool \<Rightarrow> bool \<Rightarrow> kwargs
     \<Rightarrow> (string \<times> (exn + APIResponse)) list traced" where
  "hybrid_request env table prompt use_search use_reasoning kw =
     (case (if hybrid_tasks use_search use_reasoning = [] then None
            else bind_error ''APIManager.route_request''
                   [''self'', ''request_type'', ''prompt''] None kw) of
        Some e \<Rightarrow> (Inl e, [])
      | None \<Rightarrow>
          (case gather (map (\<lambda>t. route_request env table t prompt kw)
                            (hybrid_tasks use_search use_reasoning)) of
             (responses, tr) \<Rightarrow>
               (let results0 = [];
                    results1 =
                      (if use_search \<and> length responses > 0 then
                         (case responses ! 0 of
                            Inl e \<Rightarrow>
                              if is_Exception e then results0
                              else dict_set results0 ''search'' (Inl e)
                          | Inr r \<Rightarrow> dict_set results0 ''search'' (Inr r))
                       else results0);
                    results2 =
                      (if use_reasoning then
                         (let reasoning_index = (if use_search then 1 else 0)
                          in if length responses > reasoning_index then
                               (case responses ! reasoning_index of
                                  Inl e \<Rightarrow>
                                    if is_Exception e then results1
                                    else dict_set results1 ''reasoning'' (Inl e)
                                | Inr r \<Rightarrow> dict_set results1 ''reasoning'' (Inr r))
                             else results1)
                       else results1)
                in (Inr results2, tr))))"

text \<open>The body of \<^verbatim>\<open>for key in total_usage: total_usage[key] += response.usage.get(key, 0)\<close>.\<close>

definition aggregate_usage :: "usage_dict \<Rightarrow> usage_dict \<Rightarrow> usage_dict" where
  "aggregate_usage total_usage u =
     (\<lambda>key. case total_usage key of
               None \<Rightarrow> None
             | Some v \<Rightarrow> Some (v + dict_get u key 0))"

text \<open>The loop \<^verbatim>\<open>for source, response in responses.items()\<close> of
  \<^verbatim>\<open>synthesize_responses\<close>, on the state (\<^verbatim>\<open>combined_content\<close>, \<^verbatim>\<open>all_citations\<close>,
  \<^verbatim>\<open>total_usage\<close>).\<close>

fun synthesis_loop ::
  "(string \<times> APIResponse) list \<Rightarrow> string list \<times> citation list \<times> usage_dict
     \<Rightarrow> string list \<times> citation list \<times> usage_dict" where
  "synthesis_loop [] st = st"
| "synthesis_loop ((src, response) # rest) (combined_content, all_citations, total_usage) =
     synthesis_loop rest
       (combined_content @ [''From '' @ src @ '':'' @ nl @ content response],
        (case citations response of
           None \<Rightarrow> all_citations
         | Some cs \<Rightarrow> if cs \<noteq> [] then all_citations @ cs else all_citations),
        aggregate_usage total_usage (usage response))"

text \<open>\<^verbatim>\<open>total_usage[key] += u[key]\<close>, both subscripts raising \<^verbatim>\<open>KeyError\<close> on an absent key.\<close>

definition add_usage_key :: "usage_dict \<Rightarrow> usage_dict \<Rightarrow> string \<Rightarrow> exn + usage_dict" where
  "add_usage_key total_usage u key =
     (case total_usage key of
        None \<Rightarrow> Inl (KeyError (quoted key))
      | Some v \<Rightarrow>
          (case u key of
             None \<Rightarrow> Inl (KeyError (quoted key))
           | Some w \<Rightarrow> Inr (total_usage(key \<mapsto> v + w))))"

definition default_synthesis_prompt :: string where
  "default_synthesis_prompt =
     ''Synthesize the following information into a comprehensive response:''"

definition synthesis_system_instruction :: string where
  "synthesis_system_instruction =
     ''You are an expert at synthesizing information from multiple sources. ''
     @ ''Provide a comprehensive, well-structured response that combines the best ''
     @ ''insights from all sources.''"

text \<open>The prompt sent to the model by \<^verbatim>\<open>synthesize_responses\<close>.\<close>

definition synthesis_full_prompt ::
  "(string \<times> APIResponse) list \<Rightarrow> string option \<Rightarrow> string" where
  "synthesis_full_prompt responses synthesis_prompt =
     (let sp = (case synthesis_prompt of
                  None \<Rightarrow> default_synthesis_prompt
                | Some s \<Rightarrow> if s \<noteq> [] then s else default_synthesis_prompt)
      in sp @ nl @ nl
           @ join (nl @ nl)
               (fst (synthesis_loop responses
                  ([], [], [''prompt_tokens'' \<mapsto> 0, ''completion_tokens'' \<mapsto> 0,
                            ''total_tokens'' \<mapsto> 0]))))"

text \<open>\<^verbatim>\<open>APIManager.synthesize_responses\<close>.  The input dictionary is the list of its items
  in iteration order.\<close>

definition synthesize_responses ::
  "env \<Rightarrow> (string \<times> APIResponse) list \<Rightarrow> string option \<Rightarrow> APIResponse traced" where
  "synthesize_responses env responses synthesis_prompt =
     (case synthesis_loop responses
             ([], [], [''prompt_tokens'' \<mapsto> 0, ''completion_tokens'' \<mapsto> 0,
                       ''total_tokens'' \<mapsto> 0]) of
        (combined_content, all_citations, total_usage) \<Rightarrow>
          (case generate_text env (synthesis_full_prompt responses synthesis_prompt)
                  (Some synthesis_system_instruction) [] of
             (Inl e, tr) \<Rightarrow> (Inl e, tr)
           | (Inr synthesis_response, tr) \<Rightarrow>
               ((case add_usage_key total_usage (gr_usage synthesis_response)
                        ''prompt_tokens'' of
                   Inl e \<Rightarrow> Inl e
                 | Inr total1 \<Rightarrow>
                     (case add_usage_key total1 (gr_usage synthesis_response)
                             ''completion_tokens'' of
                        Inl e \<Rightarrow> Inl e
                      | Inr total2 \<Rightarrow>
                          (case add_usage_key total2 (gr_usage synthesis_response)
                                  ''total_tokens'' of
                             Inl e \<Rightarrow> Inl e
                           | Inr total3 \<Rightarrow>
                               Inr \<lparr>content = gr_content synthesis_response,
                                    source = ''synthesized'',
                                    usage = total3,
                                    metadata =
                                      [(''sources'', PStrList (map fst responses)),
                                       (''synthesis_model'',
                                          PStr (gr_model synthesis_response))],
                                    citations = Some all_citations\<rparr>))),
                tr)))"

section \<open>Concrete environments\<close>

text \<open>An environment whose two upstream services answer every request the same way.\<close>

definition const_env :: "exn + gemini_reply \<Rightarrow> exn + perplexity_data \<Rightarrow> env" where
  "const_env g p =
     \<lparr>gemini_model = ''gemini-2.5-flash'',
      perplexity_model = ''sonar-pro'',
      perplexity_temperature = 3 / 10,
      perplexity_max_tokens = 4096,
      generate_content = (\<lambda>_ _. g),
      post_chat_completions = (\<lambda>_. p),
      loop_time = 0\<rparr>"

text \<open>Both upstream services are down, each with an error of its own.\<close>

definition env_down :: env where
  "env_down =
     const_env (Inl (Exn ''RuntimeError'' ''A down'')) (Inl (Exn ''ConnectError'' ''B down''))"

text \<open>Gemini is down; Perplexity answers, with citations and a full usage dictionary.\<close>

definition data_ok :: perplexity_data where
  "data_ok =
     \<lparr>data_choices =
        Some [\<lparr>message = Some (Some ''answer''), finish_reason = Some ''stop''\<rparr>],
      data_citations = Some [[(''url'', ''https://example.org/a'')]],
      data_usage =
        Some [''prompt_tokens'' \<mapsto> 4, ''completion_tokens'' \<mapsto> 6,
              ''total_tokens'' \<mapsto> 10]\<rparr>"

definition env_fallback :: env where
  "env_fallback = const_env (Inl (Exn ''RuntimeError'' ''A down'')) (Inr data_ok)"

definition response_fallback :: APIResponse where
  "response_fallback =
     \<lparr>content = ''answer'', source = ''perplexity'',
      usage = [''prompt_tokens'' \<mapsto> 4, ''completion_tokens'' \<mapsto> 6,
               ''total_tokens'' \<mapsto> 10],
      metadata = [(''model'', PStr ''sonar-pro''), (''finish_reason'', PStr ''stop'')],
      citations = Some [[(''url'', ''https://example.org/a'')]]\<rparr>"

definition payload_q :: payload where
  "payload_q =
     [(''model'', PStr ''sonar-pro''),
      (''messages'', PDicts [[(''role'', ''user''), (''content'', ''q'')]]),
      (''temperature'', PFloat (3 / 10)),
      (''max_tokens'', PInt 4096),
      (''return_citations'', PBool True),
      (''return_images'', PBool False)]"

text \<open>Both services answer, and neither reply says anything about token usage.\<close>

definition data_no_usage :: perplexity_data where
  "data_no_usage =
     \<lparr>data_choices =
        Some [\<lparr>message = Some (Some ''answer''), finish_reason = Some ''stop''\<rparr>],
      data_citations = None,
      data_usage = None\<rparr>"

definition reply_no_usage :: gemini_reply where
  "reply_no_usage = \<lparr>reply_text = Inr ''four'', usage_metadata = None, candidates = []\<rparr>"

definition env_no_usage :: env where
  "env_no_usage = const_env (Inr reply_no_usage) (Inr data_no_usage)"

text \<open>Perplexity is down; Gemini answers and reports the usage 3, 2, 5.\<close>

definition env_synthesis :: env where
  "env_synthesis =
     const_env
       (Inr \<lparr>reply_text = Inr ''merged'',
             usage_metadata =
               Some \<lparr>prompt_token_count = 3, candidates_token_count = 2,
                     total_token_count = 5\<rparr>,
             candidates = []\<rparr>)
       (Inl (Exn ''ConnectError'' ''B down''))"

definition synthesis_reply :: GeminiResponse where
  "synthesis_reply =
     \<lparr>gr_content = ''merged'',
      gr_usage = [''prompt_tokens'' \<mapsto> 3, ''completion_tokens'' \<mapsto> 2,
                  ''total_tokens'' \<mapsto> 5],
      gr_model = ''gemini-2.5-flash'',
      gr_finish_reason = ''UNKNOWN'',
      gr_safety_ratings = None\<rparr>"

definition response_synthesis :: APIResponse where
  "response_synthesis =
     \<lparr>content = ''merged'', source = ''gemini'',
      usage = [''prompt_tokens'' \<mapsto> 3, ''completion_tokens'' \<mapsto> 2,
               ''total_tokens'' \<mapsto> 5],
      metadata = [(''model'', PStr ''gemini-2.5-flash''),
                  (''finish_reason'', PStr ''UNKNOWN''),
                  (''safety_ratings'', PNone)],
      citations = None\<rparr>"

text \<open>Two responses to synthesize, with the usages 10, 5, 15 and 20, 10, 30 and one
  citation in common.\<close>

definition citation_a :: citation where
  "citation_a = [(''url'', ''https://example.org/a'')]"

definition citation_b :: citation where
  "citation_b = [(''url'', ''https://example.org/b'')]"

definition synthesis_inputs :: "(string \<times> APIResponse) list" where
  "synthesis_inputs =
     [(''search'',
       \<lparr>content = ''first'', source = ''perplexity'',
        usage = [''prompt_tokens'' \<mapsto> 10, ''completion_tokens'' \<mapsto> 5,
                 ''total_tokens'' \<mapsto> 15],
        metadata = [], citations = Some [citation_a]\<rparr>),
      (''fact_check'',
       \<lparr>content = ''second'', source = ''perplexity'',
        usage = [''prompt_tokens'' \<mapsto> 20, ''completion_tokens'' \<mapsto> 10,
                 ''total_tokens'' \<mapsto> 30],
        metadata = [], citations = Some [citation_a, citation_b]\<rparr>)]"

text \<open>A routing table that lists the Search-capable client before the other one.\<close>

definition routing_search_first :: routing where
  "routing_search_first = [ANALYSIS \<mapsto> [PerplexityClient, GeminiClient]]"

text \<open>The task that calls Gemini is cancelled; Perplexity answers.\<close>

definition env_cancelled_primary :: env where
  "env_cancelled_primary = const_env (Inl (CancelledError [])) (Inr data_ok)"

text \<open>Gemini is down, and the task is cancelled while it calls Perplexity.\<close>

definition env_cancelled_fallback :: env where
  "env_cancelled_fallback =
     const_env (Inl (Exn ''RuntimeError'' ''A down'')) (Inl (CancelledError []))"

text \<open>Keyword options: a system instruction for Gemini, and a key that
  \<^verbatim>\<open>route_request\<close> binds by position.\<close>

definition kwargs_instruction :: kwargs where
  "kwargs_instruction = [(''system_instruction'', PStr ''Be brief'')]"

definition kwargs_request_type :: kwargs where
  "kwargs_request_type = [(''request_type'', PStr ''search'')]"

section \<open>Binding of keyword options\<close>

lemma kwargs_empty [simp]:
  "bind_error f positional accepted [] = None"
  "kw_str [] k = None"
  "kw_bool [] k dflt = dflt"
  "kw_strs [] k = None"
  "kw_rest [] names = []"
  "route_kwargs []"
  "hybrid_kwargs []"
  by (simp_all add: bind_error_def kw_str_def kw_bool_def kw_strs_def kw_rest_def
        route_kwargs_def hybrid_kwargs_def)

lemma call_execute_request_empty [simp]:
  "call_execute_request env c t p [] = execute_request env c t p []"
  by (simp add: call_execute_request_def)

text \<open>Options that \<^verbatim>\<open>route_request\<close> can have received do not stop \<^verbatim>\<open>hybrid_request\<close>
  from calling it.\<close>

lemma bind_error_None:
  "list_all (\<lambda>(k, v). k \<notin> set positional) kw \<Longrightarrow> bind_error f positional None kw = None"
  by (induction kw) (auto simp: bind_error_def)

lemma route_kwargs_bind:
  assumes "route_kwargs kw"
  shows "bind_error f [''self'', ''request_type'', ''prompt''] None kw = None"
proof -
  from assms
  have "list_all (\<lambda>(k, v). k \<notin> set [''self'', ''request_type'', ''prompt'']) kw"
    by (auto simp: route_kwargs_def list_all_iff)
  then show ?thesis by (rule bind_error_None)
qed

text \<open>A call that returns a response was not refused.\<close>

lemma call_execute_request_Inr:
  assumes "fst (call_execute_request env c t p kw) = Inr r"
  shows "call_execute_request env c t p kw = execute_request env c t p kw"
  using assms by (auto simp: call_execute_request_def split: option.splits)

section \<open>Dispatch to a client\<close>

lemma execute_request_source:
  assumes "fst (execute_request env c t p kw) = Inr r"
  shows "(c = GeminiClient \<and> source r = ''gemini'')
         \<or> (c = PerplexityClient \<and> source r = ''perplexity'')"
  using assms
  by (cases c)
     (auto simp: execute_gemini_request_def execute_perplexity_request_def
           split: if_splits prod.splits sum.splits option.splits)

text \<open>
  Claim C7, as the code has it.  Dispatching a category that a client does not serve
  (the Gemini client: any category outside \<^verbatim>\<open>REASONING\<close>, \<^verbatim>\<open>GENERATION\<close>, \<^verbatim>\<open>ANALYSIS\<close>;
  the Perplexity client: any category outside \<^verbatim>\<open>SEARCH\<close>, \<^verbatim>\<open>ANALYSIS\<close>,
  \<^verbatim>\<open>FACT_CHECK\<close>) fails at once: the trace of network calls is empty, so nothing was
  sent and nothing retried.  The exception is the built-in \<^verbatim>\<open>ValueError\<close> with the
  message \<^verbatim>\<open><provider> API does not support request type: <category>\<close>; the code
  defines no \<^verbatim>\<open>UnsupportedCategoryError\<close>.
\<close>

theorem execute_request_unsupported:
  "(t \<notin> {REASONING, GENERATION, ANALYSIS} \<longrightarrow>
      execute_request env GeminiClient t p kw =
        (Inl (ValueError (''Gemini API does not support request type: '' @ str_APIType t)),
         []))
   \<and> (t \<notin> {SEARCH, ANALYSIS, FACT_CHECK} \<longrightarrow>
      execute_request env PerplexityClient t p kw =
        (Inl (ValueError (''Perplexity API does not support request type: ''
                @ str_APIType t)),
         []))"
  by (simp add: execute_gemini_request_def execute_perplexity_request_def
        gemini_request_types_def perplexity_request_types_def)

theorem execute_request_unsupported_witness:
  "FACT_CHECK \<notin> {REASONING, GENERATION, ANALYSIS}
   \<and> execute_request env_fallback GeminiClient FACT_CHECK ''q'' [] =
        (Inl (ValueError ''Gemini API does not support request type: APIType.FACT_CHECK''),
         [])
   \<and> GENERATION \<notin> {SEARCH, ANALYSIS, FACT_CHECK}
   \<and> execute_request env_fallback PerplexityClient GENERATION ''q'' [] =
        (Inl (ValueError
                ''Perplexity API does not support request type: APIType.GENERATION''),
         [])"
  using execute_request_unsupported [of FACT_CHECK env_fallback "''q''" "[]"]
    execute_request_unsupported [of GENERATION env_fallback "''q''" "[]"]
  by simp

text \<open>The claim as stated fails when the Perplexity client is asked for \<^verbatim>\<open>GENERATION\<close>:
  the exception is not an \<^verbatim>\<open>UnsupportedCategoryError\<close>.\<close>

theorem execute_request_unsupported_class:
  "\<not> raises_class (fst (execute_request env_fallback PerplexityClient GENERATION ''q'' []))
       ''UnsupportedCategoryError''"
  by (simp add: execute_perplexity_request_def perplexity_request_types_def
        raises_class_def)

section \<open>The router\<close>

lemma try_fallbacks_all_fail:
  "list_all (\<lambda>c. fails (fst (call_execute_request env c t p kw))) cs \<Longrightarrow>
     try_fallbacks env cs t p kw =
       (None, concat (map (\<lambda>c. snd (call_execute_request env c t p kw)) cs))"
proof (induction cs)
  case Nil
  then show ?case by simp
next
  case (Cons c cs)
  then obtain e tr where "call_execute_request env c t p kw = (Inl e, tr)" "is_Exception e"
    by (cases "call_execute_request env c t p kw")
       (auto simp: fails_def split: sum.splits)
  with Cons show ?case by simp
qed

lemma try_fallbacks_first_success:
  assumes "fst (call_execute_request env c t p kw) = Inr r"
  shows "try_fallbacks env (c # rest) t p kw =
           (Some (Inr r), snd (call_execute_request env c t p kw))"
  using assms by (cases "call_execute_request env c t p kw") auto

lemma try_fallbacks_Some:
  "fst (try_fallbacks env cs t p kw) = Some (Inr r) \<Longrightarrow>
     \<exists>c. fst (call_execute_request env c t p kw) = Inr r"
proof (induction cs)
  case Nil
  then show ?case by simp
next
  case (Cons c cs)
  obtain res tr where ex: "call_execute_request env c t p kw = (res, tr)"
    by (cases "call_execute_request env c t p kw")
  show ?case
  proof (cases res)
    case (Inr r')
    with ex Cons.prems have "r' = r" by simp
    with ex Inr have "fst (call_execute_request env c t p kw) = Inr r" by simp
    then show ?thesis ..
  next
    case (Inl e)
    with ex Cons.prems have "fst (try_fallbacks env cs t p kw) = Some (Inr r)"
      by (simp split: prod.splits if_splits)
    then show ?thesis by (rule Cons.IH)
  qed
qed

text \<open>A response that \<open>route_request\<close> returns is the response of one of the clients.\<close>

lemma route_request_success:
  assumes "fst (route_request env table t p kw) = Inr r"
  shows "\<exists>c. fst (execute_request env c t p kw) = Inr r"
proof -
  have "\<exists>c. fst (call_execute_request env c t p kw) = Inr r"
  proof (cases "dict_get table t []")
    case Nil
    with assms show ?thesis by (simp add: route_request_def)
  next
    case (Cons c cs)
    show ?thesis
    proof (cases "call_execute_request env c t p kw")
      case (Pair res tr)
      show ?thesis
      proof (cases res)
        case (Inr r')
        with Pair Cons assms have "r' = r" by (simp add: route_request_def)
        with Pair Inr show ?thesis by (intro exI [of _ c]) simp
      next
        case (Inl e)
        with Pair Cons assms have "fst (try_fallbacks env cs t p kw) = Some (Inr r)"
          by (auto simp: route_request_def split: prod.splits option.splits if_splits)
        then show ?thesis by (rule try_fallbacks_Some)
      qed
    qed
  qed
  then obtain c where c: "fst (call_execute_request env c t p kw) = Inr r" ..
  with call_execute_request_Inr [OF c] have "fst (execute_request env c t p kw) = Inr r"
    by simp
  then show ?thesis ..
qed

text \<open>When the primary succeeds, no other candidate is called.\<close>

lemma route_request_primary_success:
  assumes "table t = Some (A # rest)" and "fst (call_execute_request env A t p kw) = Inr r"
  shows "route_request env table t p kw = (Inr r, snd (call_execute_request env A t p kw))"
  using assms
  by (cases "call_execute_request env A t p kw") (auto simp: route_request_def dict_get_def)

lemma api_routing_ANALYSIS: "api_routing ANALYSIS = Some [GeminiClient, PerplexityClient]"
  by (simp add: api_routing_def)

lemma execute_gemini_down:
  "execute_request env_down GeminiClient ANALYSIS ''q'' [] =
     (Inl (Exn ''RuntimeError'' ''A down''), [GenerateContent ''q'' []])"
  by (simp add: env_down_def const_env_def execute_gemini_request_def
        gemini_request_types_def generate_text_def gemini_full_prompt_def)

lemma execute_perplexity_down:
  "\<exists>tr. execute_request env_down PerplexityClient ANALYSIS ''q'' [] =
     (Inl (Exn ''ConnectError'' ''B down''), tr)"
  by (simp add: env_down_def const_env_def execute_perplexity_request_def
        perplexity_request_types_def search_and_answer_def)

text \<open>
  An exception that \<^verbatim>\<open>except Exception\<close> does not catch is not a failure that the router
  recovers from.  A cancellation of the primary leaves \<open>route_request\<close> after that one
  call, and a cancellation of a fallback takes the place of the primary's error.
\<close>

lemma route_request_cancelled_primary:
  "route_request env_cancelled_primary api_routing ANALYSIS ''q'' [] =
     (Inl (CancelledError []), [GenerateContent ''q'' []])"
  by (simp add: route_request_def dict_get_def api_routing_def env_cancelled_primary_def
        const_env_def execute_gemini_request_def gemini_request_types_def generate_text_def
        gemini_full_prompt_def)

lemma route_request_cancelled_fallback:
  "fst (route_request env_cancelled_fallback api_routing ANALYSIS ''q'' []) =
     Inl (CancelledError [])"
  by (simp add: route_request_def dict_get_def api_routing_def env_cancelled_fallback_def
        const_env_def execute_gemini_request_def gemini_request_types_def generate_text_def
        execute_perplexity_request_def perplexity_request_types_def search_and_answer_def)

text \<open>A keyword option named \<^verbatim>\<open>api_client\<close> makes every call of \<^verbatim>\<open>_execute_request\<close>
  raise \<^verbatim>\<open>TypeError\<close>: the router fails with the first one and reaches no client.\<close>

lemma route_request_api_client:
  "route_request env api_routing ANALYSIS ''q'' [(''api_client'', PNone)] =
     (Inl (multiple_values ''APIManager._execute_request'' ''api_client''), [])"
  by (simp add: route_request_def dict_get_def api_routing_def call_execute_request_def
        bind_error_def multiple_values_def)

text \<open>
  Claim C1, as the code has it.  A call of a candidate fails when it raises an
  exception that \<^verbatim>\<open>except Exception\<close> catches.  When the candidate list of a category
  has at least two providers and the call of every candidate fails, \<open>route_request\<close>
  fails with the very exception that the first candidate raised: the \<^verbatim>\<open>raise e\<close> after
  the fallback loop re-raises the primary's exception object, unwrapped.  Every
  candidate has been tried, in order, by then.  The code defines no
  \<^verbatim>\<open>AllCandidatesFailedError\<close>; the exception that reaches the caller has the class of
  the first candidate's error.
\<close>

theorem route_request_all_fail:
  assumes "route_kwargs kw"
    and "table t = Some (c1 # c2 # cs)"
    and "list_all (\<lambda>c. fails (fst (call_execute_request env c t p kw))) (c1 # c2 # cs)"
  shows "fst (route_request env table t p kw) = fst (call_execute_request env c1 t p kw)
         \<and> fails (fst (route_request env table t p kw))
         \<and> snd (route_request env table t p kw) =
             concat (map (\<lambda>c. snd (call_execute_request env c t p kw)) (c1 # c2 # cs))"
proof -
  from assms(3) obtain e tr where e: "call_execute_request env c1 t p kw = (Inl e, tr)"
    and ex: "is_Exception e"
    by (cases "call_execute_request env c1 t p kw")
       (auto simp: fails_def split: sum.splits)
  from assms(3)
  have "list_all (\<lambda>c. fails (fst (call_execute_request env c t p kw))) (c2 # cs)"
    by simp
  from try_fallbacks_all_fail [OF this] e ex assms(2) show ?thesis
    by (simp add: route_request_def dict_get_def fails_def)
qed

text \<open>On the table of the code, \<^verbatim>\<open>ANALYSIS\<close> with both services down: the caller sees
  the error of Gemini (the primary), not the one of Perplexity (the last).\<close>

theorem route_request_all_fail_witness:
  "route_kwargs []
   \<and> api_routing ANALYSIS = Some [GeminiClient, PerplexityClient]
   \<and> list_all (\<lambda>c. fails (fst (call_execute_request env_down c ANALYSIS ''q'' [])))
        [GeminiClient, PerplexityClient]
   \<and> fst (route_request env_down api_routing ANALYSIS ''q'' []) =
        Inl (Exn ''RuntimeError'' ''A down'')
   \<and> fst (call_execute_request env_down PerplexityClient ANALYSIS ''q'' []) =
        Inl (Exn ''ConnectError'' ''B down'')"
proof -
  have h: "list_all (\<lambda>c. fails (fst (call_execute_request env_down c ANALYSIS ''q'' [])))
             [GeminiClient, PerplexityClient]"
    using execute_gemini_down execute_perplexity_down by (auto simp: fails_def)
  from route_request_all_fail
         [of "[]" api_routing ANALYSIS GeminiClient PerplexityClient "[]" env_down "''q''"]
    execute_gemini_down execute_perplexity_down h api_routing_ANALYSIS
  show ?thesis by auto
qed

text \<open>The claim as stated fails there: what \<open>route_request\<close> raises is not an
  \<^verbatim>\<open>AllCandidatesFailedError\<close>.\<close>

theorem route_request_all_fail_not_wrapped:
  "\<not> raises_class (fst (route_request env_down api_routing ANALYSIS ''q'' []))
       ''AllCandidatesFailedError''"
  by (simp add: route_request_def dict_get_def api_routing_def env_down_def const_env_def
        execute_gemini_request_def gemini_request_types_def generate_text_def
        execute_perplexity_request_def perplexity_request_types_def search_and_answer_def
        raises_class_def)

text \<open>
  Claim C8, as the code has it.  When the routing table has no entry for a category,
  or an empty candidate list, \<open>route_request\<close> fails before any provider is invoked
  (the trace of calls is empty), with the built-in \<^verbatim>\<open>ValueError\<close> and the message
  \<^verbatim>\<open>No APIs available for request type: <category>\<close>.  The code defines no
  \<^verbatim>\<open>ConfigurationError\<close>.
\<close>

theorem route_request_no_candidates:
  assumes "table t = None \<or> table t = Some []"
  shows "route_request env table t p kw =
           (Inl (ValueError (''No APIs available for request type: '' @ str_APIType t)), [])"
  using assms by (auto simp: route_request_def dict_get_def)

theorem route_request_no_candidates_witness:
  "route_request env_down (api_routing(SEARCH := None, FACT_CHECK \<mapsto> [])) SEARCH ''q'' [] =
     (Inl (ValueError ''No APIs available for request type: APIType.SEARCH''), [])
   \<and> route_request env_down (api_routing(SEARCH := None, FACT_CHECK \<mapsto> [])) FACT_CHECK
        ''q'' [] =
     (Inl (ValueError ''No APIs available for request type: APIType.FACT_CHECK''), [])"
  using route_request_no_candidates
          [of "api_routing(SEARCH := None, FACT_CHECK \<mapsto> [])" SEARCH]
    route_request_no_candidates
          [of "api_routing(SEARCH := None, FACT_CHECK \<mapsto> [])" FACT_CHECK]
  by simp

text \<open>The claim as stated fails on a table without an entry for \<^verbatim>\<open>SEARCH\<close>: the
  exception is not a \<^verbatim>\<open>ConfigurationError\<close>.\<close>

theorem route_request_no_candidates_class:
  "\<not> raises_class (fst (route_request env_down (api_routing(SEARCH := None)) SEARCH ''q'' []))
       ''ConfigurationError''"
  by (simp add: route_request_def dict_get_def raises_class_def)

lemma execute_fallback_gemini:
  "execute_request env_fallback GeminiClient ANALYSIS ''q'' [] =
     (Inl (Exn ''RuntimeError'' ''A down''), [GenerateContent ''q'' []])"
  by (simp add: env_fallback_def const_env_def execute_gemini_request_def
        gemini_request_types_def generate_text_def gemini_full_prompt_def)

lemma execute_fallback_perplexity:
  "execute_request env_fallback PerplexityClient ANALYSIS ''q'' [] =
     (Inr response_fallback, [PostChatCompletions payload_q])"
  by (simp add: env_fallback_def const_env_def execute_perplexity_request_def
        perplexity_request_types_def search_and_answer_def search_payload_def data_ok_def
        response_fallback_def payload_q_def)

lemma execute_synthesis_perplexity:
  "execute_request env_synthesis PerplexityClient ANALYSIS ''q'' [] =
     (Inl (Exn ''ConnectError'' ''B down''), [PostChatCompletions payload_q])"
  by (simp add: env_synthesis_def const_env_def execute_perplexity_request_def
        perplexity_request_types_def search_and_answer_def search_payload_def payload_q_def)

lemma execute_synthesis_gemini:
  "execute_request env_synthesis GeminiClient ANALYSIS ''q'' [] =
     (Inr response_synthesis, [GenerateContent ''q'' []])"
  by (simp add: env_synthesis_def const_env_def execute_gemini_request_def
        gemini_request_types_def generate_text_def gemini_full_prompt_def gemini_usage_def
        response_synthesis_def)

text \<open>
  Claim C2.  A call of a candidate fails when it raises an exception that
  \<^verbatim>\<open>except Exception\<close> catches.  When the candidate list of a category starts with A and
  B, the call of A fails and the call of B succeeds, \<open>route_request\<close> returns the
  response of B, whose \<open>source\<close> names B (\<^verbatim>\<open>gemini\<close> for the Gemini client,
  \<^verbatim>\<open>perplexity\<close> for the Perplexity client), and the network calls made are those of A
  followed by those of B: no candidate after B is invoked.
\<close>

theorem route_request_fallback:
  assumes "route_kwargs kw"
    and "table t = Some (A # B # rest)"
    and "fst (call_execute_request env A t p kw) = Inl e"
    and "is_Exception e"
    and "fst (call_execute_request env B t p kw) = Inr r"
  shows "route_request env table t p kw =
           (Inr r, snd (call_execute_request env A t p kw)
                     @ snd (call_execute_request env B t p kw))
         \<and> (B = GeminiClient \<longrightarrow> source r = ''gemini'')
         \<and> (B = PerplexityClient \<longrightarrow> source r = ''perplexity'')"
proof -
  from assms(3) obtain tr where a: "call_execute_request env A t p kw = (Inl e, tr)"
    by (cases "call_execute_request env A t p kw") auto
  from a assms(2,4) try_fallbacks_first_success [OF assms(5), of rest]
  have "route_request env table t p kw =
           (Inr r, snd (call_execute_request env A t p kw)
                     @ snd (call_execute_request env B t p kw))"
    by (simp add: route_request_def dict_get_def)
  moreover from call_execute_request_Inr [OF assms(5)] assms(5)
  have "fst (execute_request env B t p kw) = Inr r" by simp
  from execute_request_source [OF this]
  have "(B = GeminiClient \<longrightarrow> source r = ''gemini'')
         \<and> (B = PerplexityClient \<longrightarrow> source r = ''perplexity'')" by auto
  ultimately show ?thesis by simp
qed

text \<open>\<^verbatim>\<open>ANALYSIS\<close> on the table of the code with Gemini down, and on a table that lists
  the Perplexity client first with Perplexity down.\<close>

theorem route_request_fallback_witness:
  "route_kwargs []
   \<and> api_routing ANALYSIS = Some [GeminiClient, PerplexityClient]
   \<and> fst (call_execute_request env_fallback GeminiClient ANALYSIS ''q'' []) =
       Inl (Exn ''RuntimeError'' ''A down'')
   \<and> is_Exception (Exn ''RuntimeError'' ''A down'')
   \<and> fst (call_execute_request env_fallback PerplexityClient ANALYSIS ''q'' []) =
       Inr response_fallback
   \<and> route_request env_fallback api_routing ANALYSIS ''q'' [] =
       (Inr response_fallback, [GenerateContent ''q'' [], PostChatCompletions payload_q])
   \<and> source response_fallback = ''perplexity''
   \<and> routing_search_first ANALYSIS = Some [PerplexityClient, GeminiClient]
   \<and> route_request env_synthesis routing_search_first ANALYSIS ''q'' [] =
       (Inr response_synthesis, [PostChatCompletions payload_q, GenerateContent ''q'' []])
   \<and> source response_synthesis = ''gemini''"
  using route_request_fallback
          [of "[]" api_routing ANALYSIS GeminiClient PerplexityClient "[]" env_fallback "''q''"
              "Exn ''RuntimeError'' ''A down''" response_fallback]
    route_request_fallback
          [of "[]" routing_search_first ANALYSIS PerplexityClient GeminiClient "[]"
              env_synthesis "''q''" "Exn ''ConnectError'' ''B down''" response_synthesis]
    api_routing_ANALYSIS execute_fallback_gemini execute_fallback_perplexity
    execute_synthesis_perplexity execute_synthesis_gemini
  by (simp add: routing_search_first_def)

section \<open>Token usage of a routed response\<close>

lemma execute_gemini_request_usage:
  assumes "fst (execute_gemini_request env t p kw) = Inr r"
  shows "source r = ''gemini'' \<and>
         (\<exists>reply. generate_content env (gemini_request_prompt p kw)
                     (kw_rest kw [''system_instruction'']) = Inr reply \<and>
                   usage r = gemini_usage (usage_metadata reply))"
  using assms
  by (auto simp: execute_gemini_request_def generate_text_def gemini_request_prompt_def
           Let_def split: if_splits sum.splits option.splits)

lemma search_and_answer_usage:
  assumes "fst (search_and_answer env q sm rc ri sdf kw) = Inr x"
  shows "\<exists>data. post_chat_completions env (search_payload env q sm rc ri sdf kw) = Inr data \<and>
           pr_usage x = (case data_usage data of Some u \<Rightarrow> u | None \<Rightarrow> Map.empty)"
proof -
  let ?payload = "search_payload env q sm rc ri sdf kw"
  from assms obtain data where d: "post_chat_completions env ?payload = Inr data"
    by (cases "post_chat_completions env ?payload")
       (auto simp: search_and_answer_def Let_def)
  with assms
  have "pr_usage x = (case data_usage data of Some u \<Rightarrow> u | None \<Rightarrow> Map.empty)"
    by (auto simp: search_and_answer_def Let_def split: option.split_asm list.split_asm)
  with d show ?thesis by blast
qed

lemma execute_perplexity_request_usage:
  assumes "fst (execute_perplexity_request env t p kw) = Inr r"
  shows "source r = ''perplexity'' \<and>
         (\<exists>data. post_chat_completions env (perplexity_request_payload env t p kw) = Inr data
            \<and> usage r = (case data_usage data of Some u \<Rightarrow> u | None \<Rightarrow> Map.empty))"
proof (cases "t = FACT_CHECK")
  case True
  with assms obtain res tr where f: "fact_check env p (kw_str kw ''context'') = (Inr res, tr)"
    and r: "source r = ''perplexity''" "usage r = fc_usage res"
    by (auto simp: execute_perplexity_request_def
             split: if_splits option.splits prod.splits sum.splits)
  from f obtain x where
    "fst (search_and_answer env (fact_check_query p (kw_str kw ''context''))
            (Some fact_check_system_message) True False None []) = Inr x"
    "fc_usage res = pr_usage x"
    by (auto simp: fact_check_def split: prod.splits sum.splits)
  with search_and_answer_usage [OF this(1)] r True show ?thesis
    by (auto simp: perplexity_request_payload_def)
next
  case False
  with assms obtain x where
    "fst (search_and_answer env p (kw_str kw ''system_message'')
            (kw_bool kw ''return_citations'' True) (kw_bool kw ''return_images'' False)
            (kw_strs kw ''search_domain_filter'') (kw_rest kw search_and_answer_params)) =
       Inr x"
    and r: "source r = ''perplexity''" "usage r = pr_usage x"
    by (auto simp: execute_perplexity_request_def
             split: if_splits option.splits prod.splits sum.splits)
  with search_and_answer_usage [OF this(1)] False show ?thesis
    by (auto simp: perplexity_request_payload_def)
qed

text \<open>
  Claim C3, as the code has it.  A response returned by \<open>route_request\<close> comes from one
  of the two clients.  When its source is \<^verbatim>\<open>gemini\<close>, its usage has the three keys
  \<^verbatim>\<open>prompt_tokens\<close>, \<^verbatim>\<open>completion_tokens\<close> and \<^verbatim>\<open>total_tokens\<close>, each the count in the
  upstream reply to the request made (the prompt, behind the system instruction when
  the options give one) and 0 when that reply has no usage metadata.  When its source
  is \<^verbatim>\<open>perplexity\<close>, its usage is the \<^verbatim>\<open>usage\<close> object of the upstream reply to the
  request made, as it came, and the empty dictionary when that reply has none: no
  key is added and no default filled in.
\<close>

theorem route_request_usage:
  assumes "route_kwargs kw"
    and "fst (route_request env table t p kw) = Inr r"
  shows "(source r = ''gemini'' \<or> source r = ''perplexity'')
         \<and> (source r = ''gemini'' \<longrightarrow>
              (\<exists>reply. generate_content env (gemini_request_prompt p kw)
                          (kw_rest kw [''system_instruction'']) = Inr reply
                 \<and> usage r ''prompt_tokens'' =
                     Some (case usage_metadata reply of
                             Some m \<Rightarrow> prompt_token_count m | None \<Rightarrow> 0)
                 \<and> usage r ''completion_tokens'' =
                     Some (case usage_metadata reply of
                             Some m \<Rightarrow> candidates_token_count m | None \<Rightarrow> 0)
                 \<and> usage r ''total_tokens'' =
                     Some (case usage_metadata reply of
                             Some m \<Rightarrow> total_token_count m | None \<Rightarrow> 0)))
         \<and> (source r = ''perplexity'' \<longrightarrow>
              (\<exists>data. post_chat_completions env (perplexity_request_payload env t p kw) =
                         Inr data
                 \<and> usage r = (case data_usage data of Some u \<Rightarrow> u | None \<Rightarrow> Map.empty)))"
proof -
  from route_request_success [OF assms(2)]
  obtain c where c: "fst (execute_request env c t p kw) = Inr r" ..
  show ?thesis
  proof (cases c)
    case GeminiClient
    with c execute_gemini_request_usage [of env t p kw r] show ?thesis
      by (auto simp: gemini_usage_def)
  next
    case PerplexityClient
    with c execute_perplexity_request_usage [of env t p kw r] show ?thesis
      by auto
  next
    case (OtherClient cls)
    with c show ?thesis by simp
  qed
qed

text \<open>The request made carries the system instruction of the options.\<close>

lemma route_request_system_instruction:
  "snd (route_request env api_routing REASONING ''q'' kwargs_instruction) =
     [GenerateContent (''System: Be brief'' @ nl @ nl @ ''User: q'') []]"
  by (simp add: route_request_def dict_get_def api_routing_def call_execute_request_def
        bind_error_def kwargs_instruction_def execute_gemini_request_def
        gemini_request_types_def kw_str_def kw_rest_def generate_text_def
        gemini_full_prompt_def Let_def split: prod.splits sum.splits)

lemma route_kwargs_instruction: "route_kwargs kwargs_instruction"
  by (simp add: route_kwargs_def kwargs_instruction_def param_typed_def)

text \<open>A Gemini reply without usage metadata gives three zeros; a Perplexity reply with
  a usage object gives that object.\<close>

theorem route_request_usage_witness:
  "route_kwargs kwargs_instruction
   \<and> map_sum id (\<lambda>r. (source r, usage r ''prompt_tokens'', usage r ''completion_tokens'',
                     usage r ''total_tokens''))
     (fst (route_request env_no_usage api_routing REASONING ''q'' kwargs_instruction)) =
   Inr (''gemini'', Some 0, Some 0, Some 0)
   \<and> route_kwargs []
   \<and> map_sum id (\<lambda>r. (source r, usage r))
     (fst (route_request env_fallback api_routing SEARCH ''q'' [])) =
   Inr (''perplexity'',
        [''prompt_tokens'' \<mapsto> 4, ''completion_tokens'' \<mapsto> 6, ''total_tokens'' \<mapsto> 10])"
proof -
  obtain r where
    r: "fst (route_request env_no_usage api_routing REASONING ''q'' kwargs_instruction) = Inr r"
    and s: "source r = ''gemini''"
    by (simp add: route_request_def dict_get_def api_routing_def env_no_usage_def
        const_env_def call_execute_request_def bind_error_def kwargs_instruction_def
        execute_gemini_request_def gemini_request_types_def generate_text_def
        reply_no_usage_def kw_str_def kw_rest_def)
  from route_request_usage [OF route_kwargs_instruction r] s
  have "usage r ''prompt_tokens'' = Some 0 \<and> usage r ''completion_tokens'' = Some 0
        \<and> usage r ''total_tokens'' = Some 0"
    by (auto simp: env_no_usage_def const_env_def reply_no_usage_def)
  with r s have g: "map_sum id (\<lambda>r. (source r, usage r ''prompt_tokens'',
                     usage r ''completion_tokens'', usage r ''total_tokens''))
     (fst (route_request env_no_usage api_routing REASONING ''q'' kwargs_instruction)) =
   Inr (''gemini'', Some 0, Some 0, Some 0)" by simp
  obtain r' where r': "fst (route_request env_fallback api_routing SEARCH ''q'' []) = Inr r'"
    and s': "source r' = ''perplexity''"
    by (simp add: route_request_def dict_get_def api_routing_def env_fallback_def
        const_env_def execute_perplexity_request_def perplexity_request_types_def
        search_and_answer_def data_ok_def)
  have e: "route_kwargs []" by simp
  from route_request_usage [OF e r'] s'
  have "usage r' =
          [''prompt_tokens'' \<mapsto> 4, ''completion_tokens'' \<mapsto> 6, ''total_tokens'' \<mapsto> 10]"
    by (auto simp: env_fallback_def const_env_def data_ok_def)
  with r' s' g route_kwargs_instruction show ?thesis by simp
qed

text \<open>The claim as stated fails for \<^verbatim>\<open>SEARCH\<close> when the upstream reply has no \<^verbatim>\<open>usage\<close>
  object: the response that \<open>route_request\<close> returns has none of the three keys.\<close>

theorem route_request_usage_missing:
  "map_sum id (\<lambda>r. (source r, usage r ''prompt_tokens'', usage r ''completion_tokens'',
                     usage r ''total_tokens''))
     (fst (route_request env_no_usage api_routing SEARCH ''q'' [])) =
   Inr (''perplexity'', None, None, None)"
  by (simp add: route_request_def dict_get_def api_routing_def env_no_usage_def const_env_def
        execute_perplexity_request_def perplexity_request_types_def search_and_answer_def
        data_no_usage_def)

section \<open>The hybrid executor\<close>

lemma route_down_SEARCH:
  "fst (route_request env_down api_routing SEARCH ''q'' []) =
     Inl (Exn ''ConnectError'' ''B down'')"
  by (simp add: route_request_def dict_get_def api_routing_def env_down_def const_env_def
        execute_perplexity_request_def perplexity_request_types_def search_and_answer_def)

lemma route_down_REASONING:
  "fst (route_request env_down api_routing REASONING ''q'' []) =
     Inl (Exn ''RuntimeError'' ''A down'')"
  by (simp add: route_request_def dict_get_def api_routing_def env_down_def const_env_def
        execute_gemini_request_def gemini_request_types_def generate_text_def)

lemma route_synthesis_SEARCH:
  "fst (route_request env_synthesis api_routing SEARCH ''q'' []) =
     Inl (Exn ''ConnectError'' ''B down'')"
  by (simp add: route_request_def dict_get_def api_routing_def env_synthesis_def
        const_env_def execute_perplexity_request_def perplexity_request_types_def
        search_and_answer_def)

lemma route_synthesis_REASONING:
  "fst (route_request env_synthesis api_routing REASONING ''q'' []) = Inr response_synthesis"
  by (simp add: route_request_def dict_get_def api_routing_def env_synthesis_def
        const_env_def execute_gemini_request_def gemini_request_types_def generate_text_def
        gemini_usage_def response_synthesis_def)

text \<open>
  Two ways out of the per-task error boundary.  A keyword option named
  \<^verbatim>\<open>request_type\<close> makes the creation of the first task raise \<^verbatim>\<open>TypeError\<close>, which
  \<open>hybrid_request\<close> re-raises without any call made.  A task that was cancelled has
  an outcome that is no \<^verbatim>\<open>Exception\<close>: it is stored under its label.
\<close>

lemma hybrid_request_request_type:
  "hybrid_request env table ''q'' True True kwargs_request_type =
     (Inl (multiple_values ''APIManager.route_request'' ''request_type''), [])"
  by (simp add: hybrid_request_def hybrid_tasks_def bind_error_def kwargs_request_type_def)

lemma hybrid_request_cancelled:
  "fst (hybrid_request env_cancelled_fallback api_routing ''q'' True True []) =
     Inr [(''search'', Inl (CancelledError []))]"
  by (simp add: hybrid_request_def hybrid_tasks_def gather_def route_request_def
        dict_get_def api_routing_def env_cancelled_fallback_def const_env_def
        execute_gemini_request_def gemini_request_types_def generate_text_def
        execute_perplexity_request_def perplexity_request_types_def search_and_answer_def)

text \<open>
  Claim C6.  A \<open>route_request\<close> call fails when it raises an exception that is an
  \<^verbatim>\<open>Exception\<close>, which is what \<open>hybrid_request\<close> tests.  For every combination of the
  two flags, and for keyword options that the \<open>route_request\<close> calls accept, when
  each requested \<open>route_request\<close> call returns a response or fails,
  \<open>hybrid_request\<close> returns a dictionary and does not raise.  The dictionary has the
  key \<^verbatim>\<open>search\<close> exactly when the search was requested and its route call returned a
  response, and the key \<^verbatim>\<open>reasoning\<close> exactly when reasoning was requested and its
  route call returned a response, \<^verbatim>\<open>search\<close> first: a failed category is left out,
  the entry of one category does not depend on the outcome of the other, and when
  both fail the result is the empty dictionary.
\<close>

theorem hybrid_request_never_raises:
  assumes "hybrid_kwargs kw"
    and "list_all (\<lambda>t. ordinary (fst (route_request env table t prompt kw)))
           (hybrid_tasks use_search use_reasoning)"
  shows "fst (hybrid_request env table prompt use_search use_reasoning kw) =
     Inr ((case fst (route_request env table SEARCH prompt kw) of
             Inr r \<Rightarrow> if use_search then [(''search'', Inr r)] else []
           | Inl e \<Rightarrow> [])
          @ (case fst (route_request env table REASONING prompt kw) of
               Inr r \<Rightarrow> if use_reasoning then [(''reasoning'', Inr r)] else []
             | Inl e \<Rightarrow> []))"
proof -
  from assms(1) have "route_kwargs kw" by (simp add: hybrid_kwargs_def)
  then have b: "bind_error ''APIManager.route_request''
                  [''self'', ''request_type'', ''prompt''] None kw = None"
    by (rule route_kwargs_bind)
  from assms(2) b show ?thesis
    by (cases use_search; cases use_reasoning)
       (auto simp: hybrid_request_def hybrid_tasks_def gather_def ordinary_def
             split: sum.splits)
qed

text \<open>Both services down: the empty dictionary.  Only Perplexity down: the reasoning
  entry alone.\<close>

theorem hybrid_request_never_raises_witness:
  "hybrid_kwargs []
   \<and> list_all (\<lambda>t. ordinary (fst (route_request env_down api_routing t ''q'' [])))
        (hybrid_tasks True True)
   \<and> fst (route_request env_down api_routing SEARCH ''q'' []) =
       Inl (Exn ''ConnectError'' ''B down'')
   \<and> fst (route_request env_down api_routing REASONING ''q'' []) =
       Inl (Exn ''RuntimeError'' ''A down'')
   \<and> fst (hybrid_request env_down api_routing ''q'' True True []) = Inr []
   \<and> list_all (\<lambda>t. ordinary (fst (route_request env_synthesis api_routing t ''q'' [])))
        (hybrid_tasks True True)
   \<and> fst (hybrid_request env_synthesis api_routing ''q'' True True []) =
       Inr [(''reasoning'', Inr response_synthesis)]"
  using hybrid_request_never_raises [of "[]" env_down api_routing "''q''" True True]
    hybrid_request_never_raises [of "[]" env_synthesis api_routing "''q''" True True]
  by (simp add: route_down_SEARCH route_down_REASONING route_synthesis_SEARCH
        route_synthesis_REASONING hybrid_tasks_def ordinary_def)

text \<open>
  Claim C10.  With \<^verbatim>\<open>use_search = False\<close> and \<^verbatim>\<open>use_reasoning = False\<close> the task list of
  \<open>hybrid_request\<close> is empty, so no \<open>route_request\<close> is issued and no upstream call is
  made, and the call returns the empty dictionary instead of raising.
\<close>

theorem hybrid_request_no_flags:
  "hybrid_tasks False False = []
   \<and> hybrid_request env table prompt False False kw = (Inr [], [])"
  by (simp add: hybrid_request_def hybrid_tasks_def gather_def)

section \<open>The synthesizer\<close>

lemma synthesis_loop_citations:
  "fst (snd (synthesis_loop rs (cc, ac, tu))) =
     ac @ concat (map (\<lambda>(src, x). case citations x of None \<Rightarrow> [] | Some cs \<Rightarrow> cs) rs)"
  by (induction rs arbitrary: cc ac tu) (auto split: option.splits)

lemma synthesis_loop_usage:
  "snd (snd (synthesis_loop rs (cc, ac, tu))) key =
     (case tu key of
        None \<Rightarrow> None
      | Some v \<Rightarrow> Some (v + (\<Sum>(src, x) \<leftarrow> rs. dict_get (usage x) key 0)))"
  by (induction rs arbitrary: cc ac tu)
     (auto simp: aggregate_usage_def split: option.splits)

lemma generate_text_trace:
  "snd (generate_text env prompt si kw) = [GenerateContent (gemini_full_prompt prompt si) kw]"
  by (simp add: generate_text_def Let_def)

text \<open>A response of \<open>generate_text\<close> has the three usage keys.\<close>

lemma generate_text_usage_keys:
  assumes "fst (generate_text env prompt si kw) = Inr g"
  shows "\<exists>a b c. gr_usage g ''prompt_tokens'' = Some a
           \<and> gr_usage g ''completion_tokens'' = Some b
           \<and> gr_usage g ''total_tokens'' = Some c"
  using assms
  by (auto simp: generate_text_def Let_def gemini_usage_def split: sum.split_asm)

text \<open>What \<open>synthesize_responses\<close> returns when the synthesis call succeeds; the three
  subscripts of its usage update never raise.\<close>

lemma synthesize_responses_success:
  assumes g: "fst (generate_text env (synthesis_full_prompt rs sp)
                 (Some synthesis_system_instruction) []) = Inr g"
  shows "\<exists>r. fst (synthesize_responses env rs sp) = Inr r
           \<and> content r = gr_content g
           \<and> source r = ''synthesized''
           \<and> metadata r = [(''sources'', PStrList (map fst rs)),
                            (''synthesis_model'', PStr (gr_model g))]
           \<and> citations r =
               Some (concat (map (\<lambda>(src, x). case citations x of
                                               None \<Rightarrow> [] | Some cs \<Rightarrow> cs) rs))
           \<and> (\<forall>key \<in> {''prompt_tokens'', ''completion_tokens'', ''total_tokens''}.
                 \<exists>v. gr_usage g key = Some v
                   \<and> usage r key =
                       Some ((\<Sum>(src, x) \<leftarrow> rs. dict_get (usage x) key 0) + v))"
proof -
  let ?init = "([], [], [''prompt_tokens'' \<mapsto> 0, ''completion_tokens'' \<mapsto> 0,
                       ''total_tokens'' \<mapsto> (0::int)])"
  obtain cc ac tu where loop: "synthesis_loop rs ?init = (cc, ac, tu)"
    by (cases "synthesis_loop rs ?init")
  have ac: "ac = concat (map (\<lambda>(src, x). case citations x of
                                            None \<Rightarrow> [] | Some cs \<Rightarrow> cs) rs)"
    using synthesis_loop_citations [of rs "[]" "[]" "snd (snd ?init)"] loop by simp
  have tu: "\<And>key. key \<in> {''prompt_tokens'', ''completion_tokens'', ''total_tokens''} \<Longrightarrow>
              tu key = Some (\<Sum>(src, x) \<leftarrow> rs. dict_get (usage x) key 0)"
    using synthesis_loop_usage [of rs "[]" "[]" "snd (snd ?init)"] loop by auto
  from generate_text_usage_keys [OF g] obtain a b c where
    u: "gr_usage g ''prompt_tokens'' = Some a" "gr_usage g ''completion_tokens'' = Some b"
       "gr_usage g ''total_tokens'' = Some c"
    by blast
  obtain tr where gt: "generate_text env (synthesis_full_prompt rs sp)
                 (Some synthesis_system_instruction) [] = (Inr g, tr)"
    using g by (cases "generate_text env (synthesis_full_prompt rs sp)
                 (Some synthesis_system_instruction) []") auto
  show ?thesis
    using loop gt ac u tu
    by (simp add: synthesize_responses_def add_usage_key_def)
qed

lemma synthesize_responses_trace:
  "snd (synthesize_responses env rs sp) =
     [GenerateContent
        (gemini_full_prompt (synthesis_full_prompt rs sp) (Some synthesis_system_instruction))
        []]"
proof -
  let ?gt = "generate_text env (synthesis_full_prompt rs sp)
               (Some synthesis_system_instruction) []"
  obtain res tr where gt: "?gt = (res, tr)" by (cases ?gt)
  with generate_text_trace [of env "synthesis_full_prompt rs sp"
         "Some synthesis_system_instruction" "[]"]
  have "tr = [GenerateContent
        (gemini_full_prompt (synthesis_full_prompt rs sp) (Some synthesis_system_instruction))
        []]"
    by simp
  with gt show ?thesis
    by (cases res) (simp_all add: synthesize_responses_def split: prod.splits)
qed

lemma synthesize_responses_error:
  assumes "fst (generate_text env (synthesis_full_prompt rs sp)
                 (Some synthesis_system_instruction) []) = Inl e"
  shows "fst (synthesize_responses env rs sp) = Inl e"
proof -
  let ?gt = "generate_text env (synthesis_full_prompt rs sp)
               (Some synthesis_system_instruction) []"
  from assms obtain tr where "?gt = (Inl e, tr)" by (cases ?gt) auto
  then show ?thesis by (simp add: synthesize_responses_def split: prod.splits)
qed

lemma generate_text_env_synthesis:
  "fst (generate_text env_synthesis prompt si kw) = Inr synthesis_reply"
  by (simp add: generate_text_def env_synthesis_def const_env_def synthesis_reply_def
        gemini_usage_def)

lemma generate_text_env_down:
  "fst (generate_text env_down prompt si kw) = Inl (Exn ''RuntimeError'' ''A down'')"
  by (simp add: generate_text_def env_down_def const_env_def)

text \<open>
  Claim C9.  For every input dictionary, \<open>synthesize_responses\<close> makes exactly one
  network call, the \<^verbatim>\<open>generate_content\<close> call of the Gemini client (so none to
  Perplexity, and no second attempt).  An exception of that \<open>generate_text\<close> call is
  the exception of \<open>synthesize_responses\<close>, unchanged.  When the call succeeds, the
  result is a response whose \<open>source\<close> is \<^verbatim>\<open>synthesized\<close> and whose metadata entry
  \<^verbatim>\<open>sources\<close> is the list of the input labels, in order.
\<close>

theorem synthesize_responses_delegates:
  "snd (synthesize_responses env rs sp) =
     [GenerateContent
        (gemini_full_prompt (synthesis_full_prompt rs sp) (Some synthesis_system_instruction))
        []]
   \<and> (\<forall>e. fst (generate_text env (synthesis_full_prompt rs sp)
                 (Some synthesis_system_instruction) []) = Inl e
          \<longrightarrow> fst (synthesize_responses env rs sp) = Inl e)
   \<and> (\<forall>g. fst (generate_text env (synthesis_full_prompt rs sp)
                 (Some synthesis_system_instruction) []) = Inr g
          \<longrightarrow> (\<exists>r. fst (synthesize_responses env rs sp) = Inr r
                 \<and> source r = ''synthesized''
                 \<and> map_of (metadata r) ''sources'' = Some (PStrList (map fst rs))))"
proof (intro conjI allI impI)
  show "snd (synthesize_responses env rs sp) =
     [GenerateContent
        (gemini_full_prompt (synthesis_full_prompt rs sp) (Some synthesis_system_instruction))
        []]"
    by (rule synthesize_responses_trace)
next
  fix e
  assume "fst (generate_text env (synthesis_full_prompt rs sp)
                 (Some synthesis_system_instruction) []) = Inl e"
  then show "fst (synthesize_responses env rs sp) = Inl e"
    by (rule synthesize_responses_error)
next
  fix g
  assume "fst (generate_text env (synthesis_full_prompt rs sp)
                 (Some synthesis_system_instruction) []) = Inr g"
  from synthesize_responses_success [OF this]
  show "\<exists>r. fst (synthesize_responses env rs sp) = Inr r
                 \<and> source r = ''synthesized''
                 \<and> map_of (metadata r) ''sources'' = Some (PStrList (map fst rs))"
    by auto
qed

text \<open>With Gemini down the error comes back as it is; with Gemini up the two labels
  come back as the sources.  One call is made either way.\<close>

theorem synthesize_responses_delegates_witness:
  "fst (synthesize_responses env_down synthesis_inputs None) =
     Inl (Exn ''RuntimeError'' ''A down'')
   \<and> length (snd (synthesize_responses env_down synthesis_inputs None)) = 1
   \<and> map_sum id (\<lambda>r. (source r, map_of (metadata r) ''sources''))
        (fst (synthesize_responses env_synthesis synthesis_inputs None)) =
      Inr (''synthesized'', Some (PStrList [''search'', ''fact_check'']))
   \<and> length (snd (synthesize_responses env_synthesis synthesis_inputs None)) = 1"
  using synthesize_responses_delegates [of env_down synthesis_inputs None]
    synthesize_responses_delegates [of env_synthesis synthesis_inputs None]
    generate_text_env_down generate_text_env_synthesis
  by (auto simp: synthesis_inputs_def)

text \<open>
  Claim C4.  When the synthesis call succeeds, each of the three usage fields of the
  result of \<open>synthesize_responses\<close> is the sum of that field over all the input
  responses (a field that an input lacks counting as 0) plus the same field of the
  usage of the synthesis call.  This holds for every input dictionary, the empty one
  included.  The inputs 10, 5, 15 and 20, 10, 30 with a synthesis call reporting
  3, 2, 5 give 33, 17, 50.
\<close>

theorem synthesize_responses_usage:
  assumes "fst (generate_text env (synthesis_full_prompt rs sp)
                 (Some synthesis_system_instruction) []) = Inr g"
    and "key \<in> {''prompt_tokens'', ''completion_tokens'', ''total_tokens''}"
  shows "\<exists>r v. fst (synthesize_responses env rs sp) = Inr r
           \<and> gr_usage g key = Some v
           \<and> usage r key = Some ((\<Sum>(src, x) \<leftarrow> rs. dict_get (usage x) key 0) + v)"
  using synthesize_responses_success [OF assms(1)] assms(2) by auto

theorem synthesize_responses_usage_witness:
  "synthesis_inputs \<noteq> []
   \<and> map_sum id (\<lambda>r. (usage r ''prompt_tokens'', usage r ''completion_tokens'',
                       usage r ''total_tokens''))
       (fst (synthesize_responses env_synthesis synthesis_inputs None)) =
     Inr (Some 33, Some 17, Some 50)"
  using synthesize_responses_usage
          [of env_synthesis synthesis_inputs None synthesis_reply "''prompt_tokens''"]
    synthesize_responses_usage
          [of env_synthesis synthesis_inputs None synthesis_reply "''completion_tokens''"]
    synthesize_responses_usage
          [of env_synthesis synthesis_inputs None synthesis_reply "''total_tokens''"]
  by (auto simp: generate_text_env_synthesis synthesis_inputs_def synthesis_reply_def
        dict_get_def)

text \<open>
  Claim C5.  When the synthesis call succeeds, the citations of the result of
  \<open>synthesize_responses\<close> are the citations of the input responses, concatenated in the
  iteration order of the input dictionary, nothing removed: the inputs with the
  citations [a] and [a, b] give [a, a, b].
\<close>

theorem synthesize_responses_citations:
  assumes "fst (generate_text env (synthesis_full_prompt rs sp)
                 (Some synthesis_system_instruction) []) = Inr g"
  shows "\<exists>r. fst (synthesize_responses env rs sp) = Inr r
           \<and> citations r =
               Some (concat (map (\<lambda>(src, x). case citations x of
                                               None \<Rightarrow> [] | Some cs \<Rightarrow> cs) rs))"
  using synthesize_responses_success [OF assms] by auto

theorem synthesize_responses_citations_witness:
  "map_sum id citations (fst (synthesize_responses env_synthesis synthesis_inputs None)) =
     Inr (Some [citation_a, citation_a, citation_b])"
  using synthesize_responses_citations
          [of env_synthesis synthesis_inputs None synthesis_reply]
  by (auto simp: generate_text_env_synthesis synthesis_inputs_def)

end
